theory Spec2Isabelle
  imports Complex_Main "HOL-Library.Log_Nat"
begin

section \<open>Python values, errors and the process state\<close>

text \<open>
  The development embeds \<^verbatim>\<open>script.py\<close>, the geo profile generator. Python objects
  whose type the code decides at run time (the entries of \<^verbatim>\<open>zip_code_ranges\<close>) are values of
  \<open>pyval\<close>. A \<open>char\<close> holds one code point; every code point of the program's tables is below
  256, so \<open>length\<close> is Python's \<^verbatim>\<open>len\<close> on them.
\<close>

datatype error = IndexError | ValueError | TypeError | KeyError | AttributeError | Unmodelled

datatype pyval = PInt int | PStr string | PTuple "pyval list" | PList "pyval list"

text \<open>
  The code reads three process-wide sources: the generator behind Python's \<^verbatim>\<open>random\<close>
  module, the generator that Faker shares among its instances, and the clock. Each is a tape of
  the outcomes of its successive reads together with a cursor. One cell of a random tape stands
  for the raw outcome of one library call (a call of \<^verbatim>\<open>random.random\<close>, \<^verbatim>\<open>randint\<close>, \<^verbatim>\<open>choice\<close>);
  the library function maps it into its range.
\<close>

record 'a source =
  tape :: "nat \<Rightarrow> 'a"
  pos :: nat

record datetime =
  year :: int
  month :: nat
  day :: nat
  hour :: nat
  minute :: nat
  second :: nat

record world =
  rnd :: "int source"
  fkr :: "int source"
  clk :: "datetime source"

type_synonym 'a run = "world \<Rightarrow> error + ('a \<times> world)"

definition returnM :: "'a \<Rightarrow> 'a run" where
  "returnM a w = Inr (a, w)"

definition raise :: "error \<Rightarrow> 'a run" where
  "raise e w = Inl e"

definition bindM :: "'a run \<Rightarrow> ('a \<Rightarrow> 'b run) \<Rightarrow> 'b run" where
  "bindM m f w = (case m w of Inl e \<Rightarrow> Inl e | Inr (a, w') \<Rightarrow> f a w')"

definition advance :: "'a source \<Rightarrow> 'a source" where
  "advance s = s\<lparr>pos := Suc (pos s)\<rparr>"

definition current :: "'a source \<Rightarrow> 'a" where
  "current s = tape s (pos s)"

definition draw :: "int run" where
  "draw w = Inr (current (rnd w), w\<lparr>rnd := advance (rnd w)\<rparr>)"

definition datetime_now :: "datetime run" where
  "datetime_now w = Inr (current (clk w), w\<lparr>clk := advance (clk w)\<rparr>)"

section \<open>Floating point\<close>

text \<open>
  A Python float is modelled by the rational number it denotes. \<open>fl\<close> rounds a rational to the
  nearest binary64 number, ties to even, with 53 significant bits and gradual underflow;
  overflow to infinity is not modelled (every float of the program is below 1200).
  \<open>round2\<close> is \<^verbatim>\<open>round(x, 2)\<close>: the decimal with two places nearest to the exact value of \<open>x\<close>,
  ties to even, converted back to a float.
\<close>

definition round_half_even :: "rat \<Rightarrow> int" where
  "round_half_even q =
     (let f = \<lfloor>q\<rfloor>; d = q - of_int f in
      if d < 1 / 2 then f else if 1 / 2 < d then f + 1 else if even f then f else f + 1)"

definition ilog2 :: "rat \<Rightarrow> int" where
  "ilog2 x =
     (let (p, q) = quotient_of x; d = bitlen p - bitlen q in
      if 2 powi d \<le> x then d else d - 1)"

definition fl :: "rat \<Rightarrow> rat" where
  "fl x =
     (if x = 0 then 0
      else let e = max (ilog2 \<bar>x\<bar> - 52) (- 1074)
           in of_int (round_half_even (x / 2 powi e)) * 2 powi e)"

definition round2 :: "rat \<Rightarrow> rat" where
  "round2 x = fl (of_int (round_half_even (x * 100)) / 100)"

definition float_lit :: "int \<Rightarrow> nat \<Rightarrow> rat" where
  "float_lit m k = fl (of_int m / 10 ^ k)"

section \<open>The functions of the random module\<close>

definition random_random :: "rat run" where
  "random_random = bindM draw (\<lambda>r. returnM (of_int (r mod 2 ^ 53) / 2 ^ 53))"

definition random_randint :: "int \<Rightarrow> int \<Rightarrow> int run" where
  "random_randint a b =
     (if b < a then raise ValueError
      else bindM draw (\<lambda>r. returnM (a + r mod (b - a + 1))))"

definition random_choice :: "'a list \<Rightarrow> 'a run" where
  "random_choice seq =
     (if seq = [] then raise IndexError
      else bindM draw (\<lambda>r. returnM (seq ! nat (r mod int (length seq)))))"

definition random_uniform :: "rat \<Rightarrow> rat \<Rightarrow> rat run" where
  "random_uniform a b = bindM random_random (\<lambda>r. returnM (fl (a + fl (fl (b - a) * r))))"

section \<open>Conversions between integers and strings\<close>

definition digit_char :: "nat \<Rightarrow> char" where
  "digit_char d = ''0123456789'' ! d"

fun str_nat :: "nat \<Rightarrow> string" where
  "str_nat n = (if n < 10 then [digit_char n] else str_nat (n div 10) @ [digit_char (n mod 10)])"

declare str_nat.simps [simp del]

definition str_int :: "int \<Rightarrow> string" where
  "str_int i = (if i < 0 then CHR ''-'' # str_nat (nat (- i)) else str_nat (nat i))"

definition is_digit :: "char \<Rightarrow> bool" where
  "is_digit c = (48 \<le> (of_char c :: nat) \<and> (of_char c :: nat) \<le> 57)"

definition digit_val :: "char \<Rightarrow> nat" where
  "digit_val c = of_char c - 48"

definition decimal_value :: "string \<Rightarrow> nat" where
  "decimal_value s = foldl (\<lambda>a c. 10 * a + digit_val c) 0 s"

text \<open>
  \<^verbatim>\<open>int(s)\<close>: a string of ASCII digits has its decimal value. Python also accepts signs,
  underscores and surrounding white space; those forms do not occur in the tables and are left
  unmodelled. Any other string is a \<^verbatim>\<open>ValueError\<close>.
\<close>

definition int_syntax_char :: "char \<Rightarrow> bool" where
  "int_syntax_char c =
     (is_digit c \<or> c = CHR ''-'' \<or> c = CHR ''+'' \<or> c = CHR ''_'' \<or> (of_char c :: nat) \<le> 32
      \<or> (of_char c :: nat) = 133 \<or> (of_char c :: nat) = 160)"

definition int_of_str :: "string \<Rightarrow> int run" where
  "int_of_str s =
     (if s \<noteq> [] \<and> list_all is_digit s then returnM (int (decimal_value s))
      else if s \<noteq> [] \<and> list_all int_syntax_char s then raise Unmodelled
      else raise ValueError)"

fun py_int :: "pyval \<Rightarrow> int run" where
  "py_int (PInt n) = returnM n"
| "py_int (PStr s) = int_of_str s"
| "py_int (PTuple xs) = raise TypeError"
| "py_int (PList xs) = raise TypeError"

fun py_index :: "pyval \<Rightarrow> nat \<Rightarrow> pyval run" where
  "py_index (PInt n) i = raise TypeError"
| "py_index (PStr s) i = (if i < length s then returnM (PStr [s ! i]) else raise IndexError)"
| "py_index (PTuple xs) i = (if i < length xs then returnM (xs ! i) else raise IndexError)"
| "py_index (PList xs) i = (if i < length xs then returnM (xs ! i) else raise IndexError)"

fun py_choice :: "pyval \<Rightarrow> pyval run" where
  "py_choice (PInt n) = raise TypeError"
| "py_choice (PStr s) = bindM (random_choice s) (\<lambda>c. returnM (PStr [c]))"
| "py_choice (PTuple xs) = random_choice xs"
| "py_choice (PList xs) = random_choice xs"

fun is_tuple :: "pyval \<Rightarrow> bool" where
  "is_tuple (PTuple xs) = True"
| "is_tuple v = False"

text \<open>
  \<^verbatim>\<open>str\<close> as the f-string of \<^verbatim>\<open>generate_address\<close> applies it. The text form of a
  tuple or a list is not modelled; the theorems below show that the ZIP code is always a string.
\<close>

fun py_str :: "pyval \<Rightarrow> string run" where
  "py_str (PStr s) = returnM s"
| "py_str (PInt n) = returnM (str_int n)"
| "py_str (PTuple xs) = raise Unmodelled"
| "py_str (PList xs) = raise Unmodelled"

text \<open>
  \<^verbatim>\<open>str.lower\<close> on code points below 256: the ASCII capitals and the Latin-1 capitals
  (192 to 222 without the multiplication sign 215) move up by 32; nothing else changes.
\<close>

definition upper_letters :: string where
  "upper_letters =
     ''ABCDEFGHIJKLMNOPQRSTUVWXYZ'' @
       [CHR 0xC0, CHR 0xC1, CHR 0xC2, CHR 0xC3, CHR 0xC4, CHR 0xC5, CHR 0xC6, CHR 0xC7,
        CHR 0xC8, CHR 0xC9, CHR 0xCA, CHR 0xCB, CHR 0xCC, CHR 0xCD, CHR 0xCE, CHR 0xCF,
        CHR 0xD0, CHR 0xD1, CHR 0xD2, CHR 0xD3, CHR 0xD4, CHR 0xD5, CHR 0xD6, CHR 0xD8,
        CHR 0xD9, CHR 0xDA, CHR 0xDB, CHR 0xDC, CHR 0xDD, CHR 0xDE]"

definition lower_letters :: string where
  "lower_letters =
     ''abcdefghijklmnopqrstuvwxyz'' @
       [CHR 0xE0, CHR 0xE1, CHR 0xE2, CHR 0xE3, CHR 0xE4, CHR 0xE5, CHR 0xE6, CHR 0xE7,
        CHR 0xE8, CHR 0xE9, CHR 0xEA, CHR 0xEB, CHR 0xEC, CHR 0xED, CHR 0xEE, CHR 0xEF,
        CHR 0xF0, CHR 0xF1, CHR 0xF2, CHR 0xF3, CHR 0xF4, CHR 0xF5, CHR 0xF6, CHR 0xF8,
        CHR 0xF9, CHR 0xFA, CHR 0xFB, CHR 0xFC, CHR 0xFD, CHR 0xFE]"

definition lower_char :: "char \<Rightarrow> char" where
  "lower_char c = (case map_of (zip upper_letters lower_letters) c of Some l \<Rightarrow> l | None \<Rightarrow> c)"

definition lower :: "string \<Rightarrow> string" where
  "lower s = map lower_char s"

definition first_char :: "string \<Rightarrow> string run" where
  "first_char s = (if s = [] then raise IndexError else returnM [hd s])"

section \<open>Faker and the library\<close>

text \<open>
  Faker is not part of the repository. Its methods are parameters of the model: each reads
  Faker's own generator, and the two date methods also read the clock
  (\<^verbatim>\<open>date_of_birth\<close> counts ages back from today, \<^verbatim>\<open>date_time_this_year\<close> draws from the
  interval between the start of the current year and now). \<open>seeded\<close> is the tape of a
  generator after \<^verbatim>\<open>seed(n)\<close>.
\<close>

record Faker =
  faker_city :: "int source \<Rightarrow> string \<times> int source"
  faker_street_name :: "int source \<Rightarrow> string \<times> int source"
  faker_building_number :: "int source \<Rightarrow> string \<times> int source"
  faker_date_of_birth :: "datetime \<Rightarrow> int \<Rightarrow> int \<Rightarrow> int source \<Rightarrow> datetime \<times> int source"
  faker_date_time_this_year :: "datetime \<Rightarrow> int source \<Rightarrow> datetime \<times> int source"

record pylib =
  new_Faker :: "string \<Rightarrow> Faker"
  seeded :: "int \<Rightarrow> nat \<Rightarrow> int"

definition faker_call :: "(int source \<Rightarrow> 'a \<times> int source) \<Rightarrow> 'a run" where
  "faker_call m w = (let (a, s) = m (fkr w) in Inr (a, w\<lparr>fkr := s\<rparr>))"

definition faker_call_now :: "(datetime \<Rightarrow> int source \<Rightarrow> 'a \<times> int source) \<Rightarrow> 'a run" where
  "faker_call_now m = bindM datetime_now (\<lambda>now. faker_call (m now))"

definition pad :: "nat \<Rightarrow> nat \<Rightarrow> string" where
  "pad k n = replicate (k - length (str_nat n)) CHR ''0'' @ str_nat n"

definition strftime_date :: "datetime \<Rightarrow> string" where
  "strftime_date d = pad 4 (nat (year d)) @ ''-'' @ pad 2 (month d) @ ''-'' @ pad 2 (day d)"

definition strftime_datetime :: "datetime \<Rightarrow> string" where
  "strftime_datetime d =
     strftime_date d @ '' '' @ pad 2 (hour d) @ '':'' @ pad 2 (minute d) @ '':'' @ pad 2 (second d)"

definition is_leap :: "int \<Rightarrow> bool" where
  "is_leap y = (y mod 4 = 0 \<and> (y mod 100 \<noteq> 0 \<or> y mod 400 = 0))"

definition replace_year :: "datetime \<Rightarrow> int \<Rightarrow> datetime run" where
  "replace_year d y =
     (if y < 1 \<or> 9999 < y \<or> (month d = 2 \<and> day d = 29 \<and> \<not> is_leap y) then raise ValueError
      else returnM (d\<lparr>year := y\<rparr>))"

section \<open>The generator and its reference data\<close>

record GeoProfileGenerator =
  faker :: Faker
  states :: "string list"
  zip_code_ranges :: "string \<rightharpoonup> pyval"
  first_names_male :: "string list"
  first_names_female :: "string list"
  last_names :: "string list"
  email_providers :: "string list"
  city_coords :: "string \<rightharpoonup> rat \<times> rat"
  purchase_items :: "string list"

definition states_table :: "string list" where
  "states_table =
    [(''Baden-W'' @ [CHR 0xFC] @ ''rttemberg''), ''Bayern'', ''Berlin'', ''Brandenburg'',
     ''Bremen'', ''Hamburg'', ''Hessen'', ''Niedersachsen'', ''Mecklenburg-Vorpommern'',
     ''Nordrhein-Westfalen'', ''Rheinland-Pfalz'', ''Saarland'', ''Sachsen'',
     ''Sachsen-Anhalt'', ''Schleswig-Holstein'', (''Th'' @ [CHR 0xFC] @ ''ringen'')]"

definition first_names_male_table :: "string list" where
  "first_names_male_table =
    [''Lukas'', ''Max'', ''Paul'', ''Jonas'', ''Leon'', ''Felix'', ''Finn'', ''Ben'',
     ''Moritz'', ''Noah'', ''Johannes'', ''Tim'', ''Julian'', ''David'', ''Matthias'',
     ''Niklas'', ''Elias'', ''Alexander'', ''Tobias'', ''Samuel'', ''Lucas'', ''Jakob'',
     ''Fabian'', ''Andreas'', ''Markus'', ''Christian'', ''Stefan'', ''Simon'', ''Benjamin'',
     ''Daniel'', ''Michael'', ''Johann'', ''Mark'', ''Kai'', ''Martin'', ''Jakob'', ''Julian'',
     ''Tom'', ''Nico'', ''Patrick'', ''Sebastian'', ''Bastian'', ''Hannes'', ''Matthias'',
     ''Rafael'', ''Georg'', ''Arthur'', ''Lennard'', ''Oskar'', ''Jan'', ''Maurice'',
     ''Timothy'']"

definition first_names_female_table :: "string list" where
  "first_names_female_table =
    [''Anna'', ''Sophie'', ''Marie'', ''Emma'', ''Lena'', ''Laura'', ''Mia'', ''Hannah'',
     ''Lina'', ''Sophie'', ''Lea'', ''Sarah'', ''Charlotte'', ''Clara'', ''Amelie'', ''Lilli'',
     ''Emily'', ''Nina'', ''Ella'', ''Katharina'', ''Isabella'', ''Julia'', ''Lisa'',
     ''Franziska'', ''Marlene'', ''Greta'', ''Eva'', ''Luisa'', ''Paula'', ''Johanna'',
     ''Carla'', ''Leonie'', ''Lara'', ''Alina'', ''Klara'', ''Victoria'', ''Elena'', ''Sina'',
     ''Merle'', ''Maja'', ''Selina'', ''Antonia'', ''Tessa'', ''Nadine'', ''Isabel'',
     ''Vanessa'', ''Daniela'', ''Verena'', ''Bettina'', ''Jana'', ''Maike'', ''Melanie'']"

definition last_names_table :: "string list" where
  "last_names_table =
    [(''M'' @ [CHR 0xFC] @ ''ller''), ''Schmidt'', ''Schneider'', ''Fischer'', ''Weber'',
     ''Meyer'', ''Wagner'', ''Becker'', ''Hoffmann'', ''Schulz'', ''Bauer'', ''Koch'',
     ''Richter'', ''Klein'', ''Wolf'', (''Schr'' @ [CHR 0xF6] @ ''der''), ''Neumann'',
     ''Schwarz'', ''Zimmermann'', ''Braun'', ''Schmitt'', ''Hartmann'', ''Lange'', ''Werner'',
     ''Krause'', ''Peters'', ''Jung'', ''Roth'', ''Voigt'', ''Berger'', ''Mayer'', ''Fuchs'',
     ''Schulte'', (''B'' @ [CHR 0xF6] @ ''hm''), ''Weiss'', ''Bergmann'', ''Kraus'', ''Vogel'',
     ''Lang'', ''Ziegler'', ''Sauer'', ''Weidner'', ''Meyerhoff'', ''Weigel'', ''Weber'',
     ''Wirth'', (''Kr'' @ [CHR 0xE4] @ ''mer''), (''R'' @ [CHR 0xF6] @ ''der''), ''Heinrich'',
     ''Hahn'', (''B'' @ [CHR 0xF6] @ ''ttcher''), ''Schulze'']"

definition email_providers_table :: "string list" where
  "email_providers_table =
    [''gmx.de'', ''web.de'', ''t-online.de'', ''yahoo.de'', ''freenet.de'', ''aol.de'',
     ''mail.de'', ''tutanota.de'', ''hotmail.de'', ''outlook.de'', ''1und1.de'', ''posteo.de'',
     ''googlemail.com'', ''mailbox.org'', ''arcor.de'', ''ziggo.de'', ''gmx.net'',
     ''freemail.de'', ''scholar.de'', ''mymail.de'', ''bluewin.ch'', ''studiemail.de'',
     ''uni-mail.de'', ''gmx.at'', ''gmx.ch'', ''email.de'', ''deutschlandemail.de'',
     ''planet-interkom.de'', ''test.de'', ''versatel.de'', ''gmx.us'', ''gmx.co.uk'',
     ''gmx.fr'', ''mailplus.de'', ''citymail.de'', ''iserv.de'', ''gmx.org'', ''sapo.de'',
     ''mail.ru'', ''scout24.de'', ''onlinedeutsch.de'', ''blitzmail.de'', ''earthlink.net'',
     ''easy-mail.de'', ''eclipso.de'', ''freenetmail.de'', ''mailzilla.de'', ''surfmail.de'',
     ''gmx.us'', ''altavista.com'', ''dawnmail.de'', ''posteo.net'']"

definition purchase_items_table :: "string list" where
  "purchase_items_table =
    [''Hose'', ''T-Shirt'', ''Socken'', ''Jacke'', ''Schuhe'', ''Kleid'', ''Bluse'', ''Rock'',
     ''Pullover'', ''Jeans'', ''Shorts'', ''Mantel'', ''Anzug'',
     (''M'' @ [CHR 0xFC] @ ''tze''), ''Schal'', ''Handschuhe'',
     (''Unterw'' @ [CHR 0xE4] @ ''sche''), ''Badeanzug'', ''Jogginghose'', ''Hemd'',
     ''Polo-Shirt'', ''Top'', ''Pyjama'', ''Bikini'', ''Weste'', ''Leggings'', ''Poncho'',
     ''Strickjacke'', ''Overall'', ''Trainingsanzug'', ''Stirnband'', ''Strumpfhose'',
     ''Sandalen'', ''Stiefel'', ''Sneaker'', ''Pumps'', ''Slipper'', ''Cargohose'', ''Blazer'',
     ''Cardigan'', (''G'' @ [CHR 0xFC] @ ''rtel''), ''Krawatte'', ''Fliege'', ''Latzhose'',
     ''Trachten'', ''Dirndl'', ''Halstuch'', ''Regenjacke'', ''Regenhose'', ''Wanderstiefel'',
     ''Kapuzenpullover'', ''Chinos'', ''Cargo-Shorts'', ''Pufferjacke'', ''Desert Boots'',
     ''Loafers'', ''Espadrilles'', ''Flip-Flops'', ''Hausschuhe'', ''Boxershorts'',
     ''Tanktop'', ''Badehose'', ''Radlerhose'', ''Sonnenhut'', ''Haarband'', ''Klettschuhe'',
     (''Schn'' @ [CHR 0xFC] @ ''rschuhe''), ''Abendkleid'', ''Ballkleid'', ''Ballerinas'',
     ''Mokassins'', ''Zehensandalen'', ''Bastschuhe'', ''Segelschuhe'', ''Wedges'',
     ''Plateauschuhe'', ''Stoffschuhe'', ''Clogs'', (''R'' @ [CHR 0xF6] @ ''mersandalen''),
     ''Kampfstiefel'', ''Chelseaboots'', ''Brogues'', ''Halbschuhe'', ''Oxfordschuhe'',
     ''Laufschuhe'', ''Kletterhosen'', ''Sport-BH'', ''Funktionsshirt'']"

definition zip_code_ranges_items :: "(string \<times> pyval) list" where
  "zip_code_ranges_items =
    [((''Baden-W'' @ [CHR 0xFC] @ ''rttemberg''), PTuple [PInt 70000, PInt 79999]),
     (''Bayern'', PTuple [PInt 80000, PInt 99999]),
     (''Berlin'', PTuple [PInt 10000, PInt 19999]),
     (''Brandenburg'', PTuple [PInt 14000, PInt 14999]),
     (''Bremen'', PTuple [PInt 28000, PInt 28999]),
     (''Hamburg'', PTuple [PInt 20000, PInt 29999]),
     (''Hessen'', PTuple [PInt 60000, PInt 69999]),
     (''Niedersachsen'', PTuple [PInt 26000, PInt 29999]),
     (''Mecklenburg-Vorpommern'', PTuple [PInt 17000, PInt 17999]),
     (''Nordrhein-Westfalen'', PTuple [PInt 40000, PInt 49999]),
     (''Rheinland-Pfalz'', PTuple [PInt 55000, PInt 59999]),
     (''Saarland'', PTuple [PInt 66000, PInt 66999]),
     (''Sachsen'', PList [PTuple [PStr ''01000'', PStr ''01999''], PTuple [PStr ''04000'', PStr ''04999'']]),
     (''Sachsen-Anhalt'', PTuple [PInt 39000, PInt 39999]),
     (''Schleswig-Holstein'', PTuple [PInt 24000, PInt 25999]),
     ((''Th'' @ [CHR 0xFC] @ ''ringen''), PTuple [PInt 99000, PInt 99999])]"

definition city_coords_items :: "(string \<times> (rat \<times> rat)) list" where
  "city_coords_items =
    [(''Berlin'', (float_lit 525200 4, float_lit 134050 4)),
     (''Munich'', (float_lit 481351 4, float_lit 115820 4)),
     (''Hamburg'', (float_lit 535511 4, float_lit 99937 4)),
     (''Cologne'', (float_lit 509375 4, float_lit 69603 4)),
     (''Frankfurt'', (float_lit 501109 4, float_lit 86821 4)),
     (''Stuttgart'', (float_lit 487758 4, float_lit 91829 4)),
     ((''D'' @ [CHR 0xFC] @ ''sseldorf''), (float_lit 512217 4, float_lit 67762 4)),
     (''Dortmund'', (float_lit 515145 4, float_lit 74660 4)),
     (''Essen'', (float_lit 514556 4, float_lit 70116 4)),
     (''Leipzig'', (float_lit 513397 4, float_lit 123731 4)),
     (''Bremen'', (float_lit 530793 4, float_lit 88017 4)),
     (''Dresden'', (float_lit 510504 4, float_lit 137373 4)),
     (''Hanover'', (float_lit 523792 4, float_lit 97196 4)),
     (''Nuremberg'', (float_lit 494521 4, float_lit 110767 4)),
     (''Duisburg'', (float_lit 514344 4, float_lit 67623 4)),
     (''Bochum'', (float_lit 514818 4, float_lit 72162 4)),
     (''Wuppertal'', (float_lit 512562 4, float_lit 71500 4)),
     (''Bielefeld'', (float_lit 520302 4, float_lit 85325 4)),
     ((''M'' @ [CHR 0xFC] @ ''nster''), (float_lit 519607 4, float_lit 76261 4)),
     (''Mannheim'', (float_lit 494875 4, float_lit 84671 4)),
     (''Karlsruhe'', (float_lit 490141 4, float_lit 84044 4)),
     (''Hannover'', (float_lit 523792 4, float_lit 97196 4)),
     ((''N'' @ [CHR 0xFC] @ ''rnberg''), (float_lit 494521 4, float_lit 110767 4))]"

definition GeoProfileGenerator_init ::
  "pylib \<Rightarrow> string \<Rightarrow> int option \<Rightarrow> world \<Rightarrow> GeoProfileGenerator \<times> world" where
  "GeoProfileGenerator_init lib loc seed w =
     (\<lparr>faker = new_Faker lib loc,
       states = states_table,
       zip_code_ranges = map_of zip_code_ranges_items,
       first_names_male = first_names_male_table,
       first_names_female = first_names_female_table,
       last_names = last_names_table,
       email_providers = email_providers_table,
       city_coords = map_of city_coords_items,
       purchase_items = purchase_items_table\<rparr>,
      case seed of
        None \<Rightarrow> w
      | Some n \<Rightarrow> w\<lparr>fkr := \<lparr>tape = seeded lib n, pos = 0\<rparr>, rnd := \<lparr>tape = seeded lib n, pos = 0\<rparr>\<rparr>)"

section \<open>Field generators\<close>

definition generate_zip_code :: "GeoProfileGenerator \<Rightarrow> string \<Rightarrow> pyval run" where
  "generate_zip_code self state =
     (let zip_range =
        (case zip_code_ranges self state of
           Some v \<Rightarrow> v
         | None \<Rightarrow> PTuple [PInt 10000, PInt 19999])
      in bindM (if state = ''Sachsen'' then py_choice zip_range else returnM zip_range)
           (\<lambda>zip_range.
              if is_tuple zip_range then
                bindM (py_index zip_range 0) (\<lambda>lo. bindM (py_int lo) (\<lambda>a.
                bindM (py_index zip_range 1) (\<lambda>hi. bindM (py_int hi) (\<lambda>b.
                bindM (random_randint a b) (\<lambda>n. returnM (PStr (str_int n)))))))
              else returnM zip_range))"

definition dict_item :: "('k \<rightharpoonup> 'v) \<Rightarrow> 'k \<Rightarrow> error + 'v" where
  "dict_item d k = (case d k of None \<Rightarrow> Inl KeyError | Some v \<Rightarrow> Inr v)"

definition generate_geo_coordinates :: "GeoProfileGenerator \<Rightarrow> string \<Rightarrow> error + rat \<times> rat" where
  "generate_geo_coordinates self city =
     (if city_coords self city \<noteq> None then dict_item (city_coords self) city
      else Inr (float_lit 511657 4, float_lit 104515 4))"

definition generate_email :: "GeoProfileGenerator \<Rightarrow> string \<Rightarrow> string \<Rightarrow> string run" where
  "generate_email self first_name last_name =
     bindM (random_choice (email_providers self)) (\<lambda>email_provider.
     bindM (random_randint 1 4) (\<lambda>format_type.
     bindM
       (if format_type = 1 then
          bindM (random_randint 1 100) (\<lambda>k.
          returnM (lower first_name @ ''.'' @ lower last_name @ str_int k))
        else if format_type = 2 then
          bindM (first_char (lower first_name)) (\<lambda>c.
          bindM (random_randint 1 100) (\<lambda>k.
          returnM (c @ lower last_name @ str_int k)))
        else if format_type = 3 then
          bindM (first_char (lower last_name)) (\<lambda>c.
          bindM (random_randint 1 100) (\<lambda>k.
          returnM (lower first_name @ c @ str_int k)))
        else
          bindM (random_randint 1 100) (\<lambda>k.
          returnM (lower last_name @ ''.'' @ lower first_name @ str_int k)))
       (\<lambda>username. returnM (username @ ''@'' @ email_provider))))"

definition generate_address :: "GeoProfileGenerator \<Rightarrow> string \<Rightarrow> (string \<times> string) run" where
  "generate_address self state =
     bindM (generate_zip_code self state) (\<lambda>zip_code.
     bindM (faker_call (faker_city (faker self))) (\<lambda>city.
     bindM (faker_call (faker_street_name (faker self))) (\<lambda>street_name.
     bindM (faker_call (faker_building_number (faker self))) (\<lambda>building_number.
     bindM (py_str zip_code) (\<lambda>zip_text.
     returnM (zip_text @ '' '' @ city, street_name @ '' '' @ building_number))))))"

definition generate_birthday :: "GeoProfileGenerator \<Rightarrow> int \<Rightarrow> int \<Rightarrow> string run" where
  "generate_birthday self min_age max_age =
     bindM datetime_now (\<lambda>end_date.
     bindM (replace_year end_date (year end_date - max_age)) (\<lambda>start_date.
     bindM (faker_call_now (\<lambda>today. faker_date_of_birth (faker self) today min_age max_age))
       (\<lambda>birth_date. returnM (strftime_date birth_date))))"

definition generate_price :: "GeoProfileGenerator \<Rightarrow> rat run" where
  "generate_price self =
     bindM (random_uniform (float_lit 50 1) (float_lit 19999 2)) (\<lambda>u. returnM (round2 u))"

section \<open>The functions after the class body\<close>

text \<open>
  The body of \<^verbatim>\<open>class GeoProfileGenerator\<close> ends with \<^verbatim>\<open>generate_price\<close>. The definitions that
  follow it in \<^verbatim>\<open>script.py\<close>, from \<^verbatim>\<open>generate_stueckzahl\<close> to \<^verbatim>\<open>create_map\<close>, start at column 0:
  they are functions of the module, each with a parameter named \<^verbatim>\<open>self\<close>, and not attributes of
  the class; nothing attaches them to it later, and \<^verbatim>\<open>__init__\<close> stores data only. A call
  \<^verbatim>\<open>self.f(...)\<close> first looks \<^verbatim>\<open>f\<close> up on the instance. The lookup finds the methods of the class
  body and raises \<^verbatim>\<open>AttributeError\<close> for every other name, before anything is called.
  \<open>method_call\<close> is that lookup followed by the call. Inside the class body the one call of
  this kind, \<^verbatim>\<open>self.generate_zip_code\<close> in \<^verbatim>\<open>generate_address\<close>, names a method of the class and is
  written as the call itself.
\<close>

definition class_methods :: "string list" where
  "class_methods =
     [''__init__'', ''generate_zip_code'', ''generate_geo_coordinates'', ''generate_email'',
      ''generate_address'', ''generate_birthday'', ''generate_price'']"

definition method_call :: "string \<Rightarrow> 'a run \<Rightarrow> 'a run" where
  "method_call name body = (if name \<in> set class_methods then body else raise AttributeError)"

definition generate_stueckzahl :: "GeoProfileGenerator \<Rightarrow> int run" where
  "generate_stueckzahl self =
     bindM random_random (\<lambda>r. if r < float_lit 7 1 then returnM 1 else random_randint 2 5)"

definition generate_sales_tax :: "GeoProfileGenerator \<Rightarrow> rat run" where
  "generate_sales_tax self =
     bindM random_random (\<lambda>r. returnM (if r < float_lit 8 1 then float_lit 19 2 else float_lit 7 2))"

definition generate_purchase_type :: "GeoProfileGenerator \<Rightarrow> string run" where
  "generate_purchase_type self = random_choice [''Online'', ''In-Store'']"

definition split_city :: "string \<Rightarrow> string" where
  "split_city zip_city =
     (if CHR '' '' \<in> set zip_city then tl (dropWhile (\<lambda>c. c \<noteq> CHR '' '') zip_city)
      else ''Berlin'')"

definition lift :: "error + 'a \<Rightarrow> 'a run" where
  "lift r = (case r of Inl e \<Rightarrow> raise e | Inr a \<Rightarrow> returnM a)"

section \<open>The profile composer and the batch generator\<close>

text \<open>
  \<^verbatim>\<open>generate_profile\<close> is one of the functions after the class body. Two of its steps are
  definitions of their own. \<open>gender_and_first_name\<close> is its beginning (lines 331 to 338): the
  gender, and the first name from the pool of that gender. \<open>monetary_fields\<close> is its arithmetic:
  the totals of lines 361 to 363, computed from the price, quantity and tax rate as they were
  drawn, and the roundings under which the dictionary stores \<^verbatim>\<open>price\<close>, \<^verbatim>\<open>tax_amount\<close>, \<^verbatim>\<open>subtotal\<close>
  and \<^verbatim>\<open>total\<close> (lines 382 and 385 to 387), in that order. The roundings have no effect on the
  process state, so that it does not matter that the model computes them before the coordinates.
\<close>

definition gender_and_first_name :: "GeoProfileGenerator \<Rightarrow> (string \<times> string) run" where
  "gender_and_first_name self =
     bindM random_random (\<lambda>r.
     bindM (returnM (if r < float_lit 5 1 then ''male'' else ''female'')) (\<lambda>gender.
     bindM (if gender = ''male'' then random_choice (first_names_male self)
            else random_choice (first_names_female self)) (\<lambda>first_name.
     returnM (gender, first_name))))"

definition monetary_fields :: "rat \<Rightarrow> int \<Rightarrow> rat \<Rightarrow> rat \<times> rat \<times> rat \<times> rat" where
  "monetary_fields price quantity tax_rate =
     (let subtotal = fl (price * of_int quantity);
          tax_amount = fl (subtotal * tax_rate);
          total = fl (subtotal + tax_amount)
      in (round2 price, round2 tax_amount, round2 subtotal, round2 total))"

record profile =
  first_name :: string
  last_name :: string
  gender :: string
  email :: string
  birthday :: string
  street :: string
  zip_city :: string
  state :: string
  latitude :: rat
  longitude :: rat
  purchase_item :: string
  price :: rat
  quantity :: int
  tax_rate :: rat
  tax_amount :: rat
  subtotal :: rat
  total :: rat
  purchase_type :: string
  purchase_date :: string

definition generate_profile :: "GeoProfileGenerator \<Rightarrow> profile run" where
  "generate_profile self =
     bindM (gender_and_first_name self) (\<lambda>(gender, first_name).
     bindM (random_choice (last_names self)) (\<lambda>last_name.
     bindM (method_call ''generate_email'' (generate_email self first_name last_name)) (\<lambda>email.
     bindM (random_choice (states self)) (\<lambda>state.
     bindM (method_call ''generate_address'' (generate_address self state)) (\<lambda>(zip_city, street).
     bindM (method_call ''generate_birthday'' (generate_birthday self 18 80)) (\<lambda>birthday.
     bindM (random_choice (purchase_items self)) (\<lambda>item.
     bindM (method_call ''generate_price'' (generate_price self)) (\<lambda>price.
     bindM (method_call ''generate_stueckzahl'' (generate_stueckzahl self)) (\<lambda>quantity.
     bindM (method_call ''generate_sales_tax'' (generate_sales_tax self)) (\<lambda>tax_rate.
     bindM (method_call ''generate_purchase_type'' (generate_purchase_type self)) (\<lambda>purchase_type.
     bindM (returnM (monetary_fields price quantity tax_rate))
       (\<lambda>(stored_price, stored_tax_amount, stored_subtotal, stored_total).
     bindM (returnM (split_city zip_city)) (\<lambda>city.
     bindM (method_call ''generate_geo_coordinates'' (lift (generate_geo_coordinates self city)))
       (\<lambda>(lat, lon).
     bindM (faker_call_now (faker_date_time_this_year (faker self))) (\<lambda>purchase_datetime.
     returnM
       \<lparr>first_name = first_name,
        last_name = last_name,
        gender = gender,
        email = email,
        birthday = birthday,
        street = street,
        zip_city = zip_city,
        state = state,
        latitude = lat,
        longitude = lon,
        purchase_item = item,
        price = stored_price,
        quantity = quantity,
        tax_rate = tax_rate,
        tax_amount = stored_tax_amount,
        subtotal = stored_subtotal,
        total = stored_total,
        purchase_type = purchase_type,
        purchase_date = strftime_datetime purchase_datetime\<rparr>)))))))))))))))"

fun profiles_loop :: "GeoProfileGenerator \<Rightarrow> nat \<Rightarrow> profile list \<Rightarrow> profile list run" where
  "profiles_loop self 0 profiles = returnM profiles"
| "profiles_loop self (Suc n) profiles =
     bindM (method_call ''generate_profile'' (generate_profile self))
       (\<lambda>p. profiles_loop self n (profiles @ [p]))"

definition generate_profiles :: "GeoProfileGenerator \<Rightarrow> int \<Rightarrow> profile list run" where
  "generate_profiles self count = profiles_loop self (nat count) []"

text \<open>
  One invocation, as \<^verbatim>\<open>main\<close> makes it (lines 521 and 524): the generator is constructed with
  the locale and the seed, then \<^verbatim>\<open>generator.generate_profiles\<close> is called with the count.
\<close>

definition invocation :: "pylib \<Rightarrow> string \<Rightarrow> int option \<Rightarrow> int \<Rightarrow> profile list run" where
  "invocation lib loc seed count w =
     (let (generator, w') = GeoProfileGenerator_init lib loc seed w
      in method_call ''generate_profiles'' (generate_profiles generator count) w')"

section \<open>Vocabulary of the properties\<close>

text \<open>
  The numeric range that a table entry registers: a pair of bounds, given as integers or as
  digit strings, or a list of such pairs, which registers their union.
\<close>

fun bound_value :: "pyval \<Rightarrow> int option" where
  "bound_value (PInt n) = Some n"
| "bound_value (PStr s) = (if s \<noteq> [] \<and> list_all is_digit s then Some (int (decimal_value s)) else None)"
| "bound_value (PTuple xs) = None"
| "bound_value (PList xs) = None"

fun in_range_pair :: "pyval \<Rightarrow> int \<Rightarrow> bool" where
  "in_range_pair (PTuple [lo, hi]) n =
     (case (bound_value lo, bound_value hi) of
        (Some a, Some b) \<Rightarrow> a \<le> n \<and> n \<le> b
      | _ \<Rightarrow> False)"
| "in_range_pair v n = False"

fun within_registered :: "pyval \<Rightarrow> int \<Rightarrow> bool" where
  "within_registered (PList rs) n = list_ex (\<lambda>r. in_range_pair r n) rs"
| "within_registered v n = in_range_pair v n"



section \<open>A concrete library and process state\<close>

text \<open>
  One instance of the parameters, used to run the model on concrete inputs. Its Faker returns a
  fixed city and street, a house number read off the tape, a birth date that many years before
  today as \<^verbatim>\<open>minimum_age\<close> plus the tape allows, and the first instant of the current year for
  \<^verbatim>\<open>date_time_this_year\<close>.
\<close>

definition tape_of :: "int list \<Rightarrow> nat \<Rightarrow> int" where
  "tape_of xs i = (if i < length xs then xs ! i else 0)"

definition example_faker :: Faker where
  "example_faker =
     \<lparr>faker_city = (\<lambda>s. (''Neustadt'', advance s)),
      faker_street_name = (\<lambda>s. (''Lindenweg'', advance s)),
      faker_building_number = (\<lambda>s. (str_nat (nat (1 + current s mod 99)), advance s)),
      faker_date_of_birth =
        (\<lambda>today lo hi s.
           (\<lparr>year = year today - 1 - lo - current s mod (hi - lo), month = 1, day = 1,
             hour = 0, minute = 0, second = 0\<rparr>, advance s)),
      faker_date_time_this_year =
        (\<lambda>now s. (now\<lparr>month := 1, day := 1, hour := 0, minute := 0, second := 0\<rparr>, advance s))\<rparr>"

text \<open>
  Raw draws in the order in which the steps of \<^verbatim>\<open>generate_profile\<close> consume them: gender, first
  name, last name, mail provider, user name format, user name number, state (index 12,
  Sachsen), the Sachsen range, the ZIP draw, the item and the price (the draw that yields
  5.50); then a draw each for \<^verbatim>\<open>generate_stueckzahl\<close>, \<^verbatim>\<open>generate_sales_tax\<close> and
  \<^verbatim>\<open>generate_purchase_type\<close>. The generator seeded with \<open>n\<close> yields these draws shifted by \<open>n\<close>.
\<close>

definition example_draws :: "int list" where
  "example_draws = [0, 0, 0, 0, 0, 41, 12, 1, 123, 0, 23096567143805, 0, 9007199254740991, 0]"

definition example_lib :: pylib where
  "example_lib =
     \<lparr>new_Faker = (\<lambda>loc. example_faker),
      seeded = (\<lambda>n. tape_of (map (\<lambda>d. d + n) example_draws))\<rparr>"

definition example_clock :: "int \<Rightarrow> datetime source" where
  "example_clock y =
     \<lparr>tape = (\<lambda>i. \<lparr>year = y, month = 6, day = 15, hour = 12, minute = 0, second = 0\<rparr>), pos = 0\<rparr>"

definition example_world :: "int list \<Rightarrow> world" where
  "example_world xs =
     \<lparr>rnd = \<lparr>tape = tape_of xs, pos = 0\<rparr>, fkr = \<lparr>tape = tape_of [], pos = 0\<rparr>,
      clk = example_clock 2025\<rparr>"

text \<open>
  The process state in which both generators run on \<open>example_draws\<close> and the clock shows the
  15th of June of year \<open>y\<close>, after \<open>i\<close> draws of the random module, \<open>j\<close> draws of Faker and \<open>k\<close>
  readings of the clock.
\<close>

definition example_state :: "int \<Rightarrow> nat \<Rightarrow> nat \<Rightarrow> nat \<Rightarrow> world" where
  "example_state y i j k =
     \<lparr>rnd = \<lparr>tape = tape_of example_draws, pos = i\<rparr>,
      fkr = \<lparr>tape = tape_of example_draws, pos = j\<rparr>,
      clk = (example_clock y)\<lparr>pos := k\<rparr>\<rparr>"

definition example_generator :: GeoProfileGenerator where
  "example_generator = fst (GeoProfileGenerator_init example_lib ''de_DE'' None (example_world []))"

section \<open>Basic lemmas\<close>

lemma bindM_returnM [simp]: "bindM (returnM a) f = f a"
  by (rule ext) (simp add: bindM_def returnM_def)

lemma bindM_raise [simp]: "bindM (raise e) f = raise e"
  by (rule ext) (simp add: bindM_def raise_def)


lemma draw_Inr: "draw w = Inr (current (rnd w), w\<lparr>rnd := advance (rnd w)\<rparr>)"
  by (simp add: draw_def)

lemma random_randint_range:
  assumes "a \<le> b"
  shows "\<exists>n. random_randint a b w = Inr (n, w\<lparr>rnd := advance (rnd w)\<rparr>) \<and> a \<le> n \<and> n \<le> b"
proof -
  define k where "k = current (rnd w) mod (b - a + 1)"
  have "0 < b - a + 1" using assms by simp
  then have "0 \<le> k" "k < b - a + 1"
    unfolding k_def by (rule pos_mod_sign, rule pos_mod_bound)
  moreover have "random_randint a b w = Inr (a + k, w\<lparr>rnd := advance (rnd w)\<rparr>)"
    using assms by (simp add: random_randint_def bindM_def draw_def returnM_def k_def)
  ultimately show ?thesis by simp
qed

lemma digit_cases: "d < 10 \<Longrightarrow> d = 0 \<or> d = 1 \<or> d = 2 \<or> d = 3 \<or> d = 4 \<or> d = 5 \<or> d = 6 \<or> d = 7 \<or> d = 8 \<or> d = (9::nat)"
  by arith

lemma is_digit_digit_char: "d < 10 \<Longrightarrow> is_digit (digit_char d)"
  by (drule digit_cases) (auto simp: is_digit_def digit_char_def)

lemma digit_val_digit_char: "d < 10 \<Longrightarrow> digit_val (digit_char d) = d"
  by (drule digit_cases) (auto simp: digit_val_def digit_char_def)

lemma str_nat_digits: "list_all is_digit (str_nat n)"
proof (induction n rule: str_nat.induct)
  case (1 n)
  show ?case
  proof (cases "n < 10")
    case True
    then show ?thesis by (subst str_nat.simps) (simp add: is_digit_digit_char)
  next
    case False
    then show ?thesis using 1 by (subst str_nat.simps) (simp add: is_digit_digit_char)
  qed
qed

lemma decimal_value_snoc: "decimal_value (s @ [c]) = 10 * decimal_value s + digit_val c"
  by (simp add: decimal_value_def)

lemma decimal_value_str_nat: "decimal_value (str_nat n) = n"
proof (induction n rule: str_nat.induct)
  case (1 n)
  show ?case
  proof (cases "n < 10")
    case True
    then show ?thesis
      by (subst str_nat.simps) (simp add: decimal_value_def digit_val_digit_char)
  next
    case False
    then show ?thesis using 1
      by (subst str_nat.simps) (simp add: decimal_value_snoc digit_val_digit_char)
  qed
qed

lemma length_str_nat: "10 ^ k \<le> n \<Longrightarrow> n < 10 ^ Suc k \<Longrightarrow> length (str_nat n) = Suc k"
proof (induction k arbitrary: n)
  case 0
  then show ?case by (subst str_nat.simps) simp
next
  case (Suc k)
  have "\<not> n < 10" using Suc.prems(1) 
    by (metis One_nat_def le_trans linorder_not_less one_le_numeral one_le_power power_Suc0_right power_increasing zero_less_Suc Suc_leI)
  moreover have "10 ^ k \<le> n div 10" using Suc.prems(1) by (simp add: less_eq_div_iff_mult_less_eq mult.commute)
  moreover have "n div 10 < 10 ^ Suc k" using Suc.prems(2) by (simp add: less_mult_imp_div_less mult.commute)
  ultimately show ?case using Suc.IH [of "n div 10"] by (subst str_nat.simps) simp
qed

lemma zip_single_ranges:
  "map_of zip_code_ranges_items st = Some v \<Longrightarrow> st \<noteq> ''Sachsen'' \<Longrightarrow>
   \<exists>lo hi. v = PTuple [PInt lo, PInt hi] \<and> 10000 \<le> lo \<and> lo \<le> hi \<and> hi \<le> 99999"
  by (auto simp: zip_code_ranges_items_def split: if_splits)


lemma init_tables [simp]:
  "zip_code_ranges (fst (GeoProfileGenerator_init lib loc seed w0)) = map_of zip_code_ranges_items"
  "states (fst (GeoProfileGenerator_init lib loc seed w0)) = states_table"
  "city_coords (fst (GeoProfileGenerator_init lib loc seed w0)) = map_of city_coords_items"
  by (simp_all add: GeoProfileGenerator_init_def)

lemma zip_from_pair:
  assumes "0 \<le> lo" "lo \<le> hi"
  shows "\<exists>n. bindM (py_index (PTuple [PInt lo, PInt hi]) 0) (\<lambda>l. bindM (py_int l) (\<lambda>a.
                bindM (py_index (PTuple [PInt lo, PInt hi]) 1) (\<lambda>h. bindM (py_int h) (\<lambda>b.
                bindM (random_randint a b) (\<lambda>n. returnM (PStr (str_int n))))))) w
             = Inr (PStr (str_nat (nat n)), w\<lparr>rnd := advance (rnd w)\<rparr>) \<and> lo \<le> n \<and> n \<le> hi"
proof -
  obtain n where n: "random_randint lo hi w = Inr (n, w\<lparr>rnd := advance (rnd w)\<rparr>)" "lo \<le> n" "n \<le> hi"
    using random_randint_range [OF assms(2)] by blast
  then have "\<not> n < 0" using assms by simp
  then show ?thesis using n
    by (auto simp: bindM_def returnM_def str_int_def intro!: exI [of _ n])
qed

lemma generate_zip_code_single:
  assumes "st \<noteq> ''Sachsen''"
    and "(case zip_code_ranges self st of Some v \<Rightarrow> v | None \<Rightarrow> PTuple [PInt 10000, PInt 19999])
          = PTuple [PInt lo, PInt hi]"
    and "0 \<le> lo" "lo \<le> hi"
  shows "\<exists>n. generate_zip_code self st w = Inr (PStr (str_nat (nat n)), w\<lparr>rnd := advance (rnd w)\<rparr>)
           \<and> lo \<le> n \<and> n \<le> hi"
  using zip_from_pair [OF assms(3,4), of w] assms(1,2)
  by (simp add: generate_zip_code_def)

lemma Sachsen_entry:
  "map_of zip_code_ranges_items ''Sachsen'' =
     Some (PList [PTuple [PStr ''01000'', PStr ''01999''], PTuple [PStr ''04000'', PStr ''04999'']])"
  by (simp add: zip_code_ranges_items_def)

lemma int_of_str_bounds:
  "int_of_str ''01000'' = returnM 1000" "int_of_str ''01999'' = returnM 1999"
  "int_of_str ''04000'' = returnM 4000" "int_of_str ''04999'' = returnM 4999"
  by (simp_all add: int_of_str_def is_digit_def decimal_value_def digit_val_def)

lemma zip_from_str_pair:
  assumes "int_of_str ls = returnM lo" "int_of_str hs = returnM hi" "0 \<le> lo" "lo \<le> hi"
  shows "\<exists>n. bindM (py_index (PTuple [PStr ls, PStr hs]) 0) (\<lambda>l. bindM (py_int l) (\<lambda>a.
                bindM (py_index (PTuple [PStr ls, PStr hs]) 1) (\<lambda>h. bindM (py_int h) (\<lambda>b.
                bindM (random_randint a b) (\<lambda>n. returnM (PStr (str_int n))))))) w
             = Inr (PStr (str_nat (nat n)), w\<lparr>rnd := advance (rnd w)\<rparr>) \<and> lo \<le> n \<and> n \<le> hi"
proof -
  obtain n where n: "random_randint lo hi w = Inr (n, w\<lparr>rnd := advance (rnd w)\<rparr>)" "lo \<le> n" "n \<le> hi"
    using random_randint_range [OF assms(4)] by blast
  then have "\<not> n < 0" using assms by simp
  then show ?thesis using n assms(1,2)
    by (auto simp: bindM_def returnM_def str_int_def intro!: exI [of _ n])
qed

lemma random_choice_Inr:
  "seq \<noteq> [] \<Longrightarrow>
   random_choice seq w = Inr (seq ! nat (current (rnd w) mod int (length seq)), w\<lparr>rnd := advance (rnd w)\<rparr>)"
  by (simp add: random_choice_def bindM_def draw_def returnM_def)

lemma bindM_step: "m w = Inr (a, w') \<Longrightarrow> bindM m f w = f a w'"
  by (simp add: bindM_def)

lemma generate_zip_code_Sachsen:
  assumes "zip_code_ranges self ''Sachsen'' =
     Some (PList [PTuple [PStr ''01000'', PStr ''01999''], PTuple [PStr ''04000'', PStr ''04999'']])"
  shows "\<exists>n. generate_zip_code self ''Sachsen'' w
            = Inr (PStr (str_nat (nat n)), w\<lparr>rnd := advance (advance (rnd w))\<rparr>)
          \<and> (1000 \<le> n \<and> n \<le> 1999 \<or> 4000 \<le> n \<and> n \<le> 4999)"
proof -
  let ?w = "w\<lparr>rnd := advance (rnd w)\<rparr>"
  let ?A = "PTuple [PStr ''01000'', PStr ''01999'']"
  let ?B = "PTuple [PStr ''04000'', PStr ''04999'']"
  let ?k = "\<lambda>zip_range.
              if is_tuple zip_range then
                bindM (py_index zip_range 0) (\<lambda>lo. bindM (py_int lo) (\<lambda>a.
                bindM (py_index zip_range 1) (\<lambda>hi. bindM (py_int hi) (\<lambda>b.
                bindM (random_randint a b) (\<lambda>n. returnM (PStr (str_int n)))))))
              else returnM zip_range"
  define i where "i = nat (current (rnd w) mod int (length [?A, ?B]))"
  have adv: "?w\<lparr>rnd := advance (rnd ?w)\<rparr> = w\<lparr>rnd := advance (advance (rnd w))\<rparr>" by simp
  have ch: "random_choice [?A, ?B] w = Inr ([?A, ?B] ! i, ?w)"
    unfolding i_def by (rule random_choice_Inr) simp
  have gen: "generate_zip_code self ''Sachsen'' w = ?k ([?A, ?B] ! i) ?w"
    using assms bindM_step [of "random_choice [?A, ?B]" w "[?A, ?B] ! i" ?w ?k, OF ch]
    by (simp add: generate_zip_code_def)
  have "current (rnd w) mod int (length [?A, ?B]) < int (length [?A, ?B])"
    by (rule pos_mod_bound) simp
  then have "i < 2" unfolding i_def by simp
  then have "i = 0 \<or> i = 1" by arith
  then show ?thesis
  proof
    assume "i = 0"
    then have "generate_zip_code self ''Sachsen'' w = ?k ?A ?w" using gen by simp
    then show ?thesis
      using zip_from_str_pair [OF int_of_str_bounds(1,2), of ?w] adv by auto
  next
    assume "i = 1"
    then have "generate_zip_code self ''Sachsen'' w = ?k ?B ?w" using gen by simp
    then show ?thesis
      using zip_from_str_pair [OF int_of_str_bounds(3,4), of ?w] adv by auto
  qed
qed


lemma Sachsen_registered: "map_of zip_code_ranges_items st = None \<Longrightarrow> st \<noteq> ''Sachsen''"
  using Sachsen_entry by auto

text \<open>
  Claim C7. For a state that is not a key of \<^verbatim>\<open>zip_code_ranges\<close>, \<^verbatim>\<open>generate_zip_code\<close>
  raises nothing: it returns a string of digits whose numeric value lies in the Berlin range
  10000 to 19999.
\<close>

theorem generate_zip_code_unknown_state:
  assumes "zip_code_ranges (fst (GeoProfileGenerator_init lib loc seed w0)) st = None"
  shows "\<exists>z w'. generate_zip_code (fst (GeoProfileGenerator_init lib loc seed w0)) st w = Inr (PStr z, w')
           \<and> list_all is_digit z \<and> 10000 \<le> decimal_value z \<and> decimal_value z \<le> 19999"
proof -
  let ?g = "fst (GeoProfileGenerator_init lib loc seed w0)"
  have none: "map_of zip_code_ranges_items st = None" using assms by simp
  then have ns: "st \<noteq> ''Sachsen''" by (rule Sachsen_registered)
  have "(case zip_code_ranges ?g st of Some v \<Rightarrow> v | None \<Rightarrow> PTuple [PInt 10000, PInt 19999])
          = PTuple [PInt 10000, PInt 19999]"
    using none by simp
  from generate_zip_code_single [OF ns this, of w]
  obtain n where n: "generate_zip_code ?g st w = Inr (PStr (str_nat (nat n)), w\<lparr>rnd := advance (rnd w)\<rparr>)"
    "10000 \<le> n" "n \<le> 19999" by auto
  then have "10000 \<le> nat n" "nat n \<le> 19999" by simp_all
  then show ?thesis using n(1) by (auto simp: str_nat_digits decimal_value_str_nat)
qed

theorem generate_zip_code_unknown_state_witness:
  "zip_code_ranges example_generator ''Atlantis'' = None
   \<and> (\<exists>z w'. generate_zip_code example_generator ''Atlantis'' (example_world [7]) = Inr (PStr z, w')
           \<and> list_all is_digit z \<and> 10000 \<le> decimal_value z \<and> decimal_value z \<le> 19999)"
proof -
  have h: "zip_code_ranges (fst (GeoProfileGenerator_init example_lib ''de_DE'' None (example_world []))) ''Atlantis'' = None"
    by (simp add: zip_code_ranges_items_def)
  show ?thesis
    using h generate_zip_code_unknown_state [OF h, of "example_world [7]"]
    unfolding example_generator_def by simp
qed

text \<open>
  Claim C10. For every state other than Sachsen, registered or not, \<^verbatim>\<open>generate_zip_code\<close>
  returns a string of exactly five decimal digits.
\<close>

theorem generate_zip_code_five_digits:
  assumes "st \<noteq> ''Sachsen''"
  shows "\<exists>z w'. generate_zip_code (fst (GeoProfileGenerator_init lib loc seed w0)) st w = Inr (PStr z, w')
           \<and> length z = 5 \<and> list_all is_digit z"
proof -
  let ?g = "fst (GeoProfileGenerator_init lib loc seed w0)"
  have "\<exists>lo hi. (case zip_code_ranges ?g st of Some v \<Rightarrow> v | None \<Rightarrow> PTuple [PInt 10000, PInt 19999])
          = PTuple [PInt lo, PInt hi] \<and> 10000 \<le> lo \<and> lo \<le> hi \<and> hi \<le> 99999"
  proof (cases "map_of zip_code_ranges_items st")
    case None
    then show ?thesis by simp
  next
    case (Some v)
    then show ?thesis using zip_single_ranges [OF Some assms] by auto
  qed
  then obtain lo hi where r: "(case zip_code_ranges ?g st of Some v \<Rightarrow> v | None \<Rightarrow> PTuple [PInt 10000, PInt 19999])
          = PTuple [PInt lo, PInt hi]" "10000 \<le> lo" "lo \<le> hi" "hi \<le> 99999" by blast
  then have "0 \<le> lo" by simp
  from generate_zip_code_single [OF assms r(1) this r(3), of w]
  obtain n where n: "generate_zip_code ?g st w = Inr (PStr (str_nat (nat n)), w\<lparr>rnd := advance (rnd w)\<rparr>)"
    "lo \<le> n" "n \<le> hi" by auto
  have "10 ^ 4 \<le> nat n" "nat n < 10 ^ Suc 4" using n(2,3) r(2,4) by simp_all
  then have "length (str_nat (nat n)) = Suc 4" by (rule length_str_nat)
  then show ?thesis using n(1) by (simp add: str_nat_digits)
qed

theorem generate_zip_code_five_digits_witness:
  "''Bayern'' \<noteq> ''Sachsen''
   \<and> (\<exists>z w'. generate_zip_code example_generator ''Bayern'' (example_world [7]) = Inr (PStr z, w')
           \<and> length z = 5 \<and> list_all is_digit z)"
proof -
  have h: "''Bayern'' \<noteq> ''Sachsen''" by simp
  show ?thesis
    using h generate_zip_code_five_digits [OF h, of example_lib "''de_DE''" None "example_world []" "example_world [7]"]
    unfolding example_generator_def by simp
qed

text \<open>
  Claim C5 asks for the five-character, zero-padded form of the Sachsen codes. The code converts
  the registered bounds \<^verbatim>\<open>"01000"\<close> and so on with \<^verbatim>\<open>int\<close> and renders the drawn number with
  \<^verbatim>\<open>str\<close>, so every Sachsen ZIP code has exactly four characters: the leading zero is lost.
\<close>

theorem generate_zip_code_Sachsen_four_chars:
  "\<exists>z w'. generate_zip_code (fst (GeoProfileGenerator_init lib loc seed w0)) ''Sachsen'' w = Inr (PStr z, w')
           \<and> length z = 4 \<and> list_all is_digit z"
proof -
  let ?g = "fst (GeoProfileGenerator_init lib loc seed w0)"
  have "zip_code_ranges ?g ''Sachsen'' =
     Some (PList [PTuple [PStr ''01000'', PStr ''01999''], PTuple [PStr ''04000'', PStr ''04999'']])"
    by (simp add: Sachsen_entry)
  from generate_zip_code_Sachsen [OF this, of w]
  obtain n where n: "generate_zip_code ?g ''Sachsen'' w
            = Inr (PStr (str_nat (nat n)), w\<lparr>rnd := advance (advance (rnd w))\<rparr>)"
          "1000 \<le> n \<and> n \<le> 1999 \<or> 4000 \<le> n \<and> n \<le> 4999" by auto
  have "10 ^ 3 \<le> nat n" "nat n < 10 ^ Suc 3" using n(2) by auto
  then have "length (str_nat (nat n)) = Suc 3" by (rule length_str_nat)
  then show ?thesis using n(1) by (simp add: str_nat_digits)
qed

text \<open>The first range with the smallest draw: the result is \<^verbatim>\<open>"1000"\<close>, not \<^verbatim>\<open>"01000"\<close>.\<close>

lemma generate_zip_code_Sachsen_example:
  "generate_zip_code example_generator ''Sachsen'' (example_world [0, 0])
     = Inr (PStr ''1000'', (example_world [0, 0])\<lparr>rnd := advance (advance (rnd (example_world [0, 0])))\<rparr>)"
  by (simp add: example_generator_def generate_zip_code_def Sachsen_entry random_choice_def bindM_def
      draw_def returnM_def example_world_def current_def advance_def tape_of_def int_of_str_bounds
      random_randint_def str_int_def str_nat.simps digit_char_def)

lemma within_registered_pair:
  "lo \<le> n \<Longrightarrow> n \<le> hi \<Longrightarrow> within_registered (PTuple [PInt lo, PInt hi]) n"
  by simp

lemma within_registered_Sachsen:
  "1000 \<le> n \<and> n \<le> 1999 \<or> 4000 \<le> n \<and> n \<le> 4999 \<Longrightarrow>
   within_registered
     (PList [PTuple [PStr ''01000'', PStr ''01999''], PTuple [PStr ''04000'', PStr ''04999'']]) n"
  by (auto simp: is_digit_def decimal_value_def digit_val_def)

lemma generate_zip_code_result:
  fixes lib loc seed w0
  defines "g \<equiv> fst (GeoProfileGenerator_init lib loc seed w0)"
  shows "\<exists>n s. generate_zip_code g st w = Inr (PStr (str_nat n), w\<lparr>rnd := s\<rparr>)
           \<and> (st = ''Sachsen'' \<longrightarrow> 1000 \<le> n \<and> n \<le> 1999 \<or> 4000 \<le> n \<and> n \<le> 4999)
           \<and> (st \<noteq> ''Sachsen'' \<longrightarrow> 10000 \<le> n \<and> n \<le> 99999)
           \<and> (zip_code_ranges g st = None \<longrightarrow> 10000 \<le> n \<and> n \<le> 19999)
           \<and> (\<forall>v. zip_code_ranges g st = Some v \<longrightarrow> within_registered v (int n))"
proof (cases "st = ''Sachsen''")
  case True
  have e: "zip_code_ranges g ''Sachsen'' =
     Some (PList [PTuple [PStr ''01000'', PStr ''01999''], PTuple [PStr ''04000'', PStr ''04999'']])"
    by (simp add: g_def Sachsen_entry)
  from generate_zip_code_Sachsen [OF e, of w]
  obtain n where n: "generate_zip_code g ''Sachsen'' w
            = Inr (PStr (str_nat (nat n)), w\<lparr>rnd := advance (advance (rnd w))\<rparr>)"
          "1000 \<le> n \<and> n \<le> 1999 \<or> 4000 \<le> n \<and> n \<le> 4999" by auto
  then have "int (nat n) = n" by auto
  then have "within_registered
     (PList [PTuple [PStr ''01000'', PStr ''01999''], PTuple [PStr ''04000'', PStr ''04999'']]) (int (nat n))"
    using within_registered_Sachsen [OF n(2)] by simp
  then show ?thesis using True n e
    by (intro exI [of _ "nat n"] exI [of _ "advance (advance (rnd w))"]) auto
next
  case False
  have "\<exists>lo hi. (case zip_code_ranges g st of Some v \<Rightarrow> v | None \<Rightarrow> PTuple [PInt 10000, PInt 19999])
          = PTuple [PInt lo, PInt hi] \<and> 10000 \<le> lo \<and> lo \<le> hi \<and> hi \<le> 99999
          \<and> (zip_code_ranges g st = None \<longrightarrow> lo = 10000 \<and> hi = 19999)"
  proof (cases "map_of zip_code_ranges_items st")
    case None
    then show ?thesis by (simp add: g_def)
  next
    case (Some v)
    then show ?thesis using zip_single_ranges [OF Some False] by (auto simp: g_def)
  qed
  then obtain lo hi where r: "(case zip_code_ranges g st of Some v \<Rightarrow> v | None \<Rightarrow> PTuple [PInt 10000, PInt 19999])
          = PTuple [PInt lo, PInt hi]" "10000 \<le> lo" "lo \<le> hi" "hi \<le> 99999"
          "zip_code_ranges g st = None \<longrightarrow> lo = 10000 \<and> hi = 19999" by (elim exE conjE)
  then have "0 \<le> lo" by simp
  from generate_zip_code_single [OF False r(1) this r(3), of w]
  obtain n where n: "generate_zip_code g st w = Inr (PStr (str_nat (nat n)), w\<lparr>rnd := advance (rnd w)\<rparr>)"
    "lo \<le> n" "n \<le> hi" by auto
  have i: "int (nat n) = n" using n(2) r(2) by simp
  have "\<forall>v. zip_code_ranges g st = Some v \<longrightarrow> within_registered v (int (nat n))"
    using r(1) n(2,3) i by (auto simp del: within_registered.simps intro: within_registered_pair)
  then show ?thesis using False n r
    by (intro exI [of _ "nat n"] exI [of _ "advance (rnd w)"]) auto
qed

text \<open>
  Claim C6. \<^verbatim>\<open>generate_geo_coordinates\<close> always returns a pair and never an error: for a city
  that is a key of \<^verbatim>\<open>city_coords\<close> the registered pair, for any other city the centroid
  (51.1657, 10.4515).
\<close>

theorem generate_geo_coordinates_lookup_or_centroid:
  "(\<exists>lat lon. generate_geo_coordinates self c = Inr (lat, lon))
   \<and> (\<forall>coords. city_coords self c = Some coords \<longrightarrow> generate_geo_coordinates self c = Inr coords)
   \<and> (city_coords self c = None \<longrightarrow>
        generate_geo_coordinates self c = Inr (float_lit 511657 4, float_lit 104515 4))"
  by (cases "city_coords self c") (auto simp: generate_geo_coordinates_def dict_item_def)

lemma example_tables [simp]:
  "zip_code_ranges example_generator = map_of zip_code_ranges_items"
  "states example_generator = states_table"
  "city_coords example_generator = map_of city_coords_items"
  by (simp_all add: example_generator_def)

theorem generate_geo_coordinates_lookup_or_centroid_witness:
  "city_coords example_generator ''Berlin'' = Some (float_lit 525200 4, float_lit 134050 4)
   \<and> generate_geo_coordinates example_generator ''Berlin'' = Inr (float_lit 525200 4, float_lit 134050 4)
   \<and> city_coords example_generator ''Neustadt'' = None
   \<and> generate_geo_coordinates example_generator ''Neustadt'' = Inr (float_lit 511657 4, float_lit 104515 4)"
proof -
  have a: "city_coords example_generator ''Berlin'' = Some (float_lit 525200 4, float_lit 134050 4)"
    by (simp add: city_coords_items_def)
  have b: "city_coords example_generator ''Neustadt'' = None"
    by (simp add: city_coords_items_def)
  show ?thesis
    using a b generate_geo_coordinates_lookup_or_centroid [of example_generator "''Berlin''"]
      generate_geo_coordinates_lookup_or_centroid [of example_generator "''Neustadt''"]
    by simp
qed






lemma example_price:
  "round2 (fl (float_lit 50 1 + fl (fl (float_lit 19999 2 - float_lit 50 1)
      * (23096567143805 / 9007199254740992)))) = 11 / 2"
  by code_simp


lemma tape_example [simp]:
  "tape_of example_draws 0 = 0" "tape_of example_draws 1 = 0" "tape_of example_draws 2 = 0"
  "tape_of example_draws 3 = 0" "tape_of example_draws 4 = 0" "tape_of example_draws 5 = 41"
  "tape_of example_draws 6 = 12" "tape_of example_draws 7 = 1" "tape_of example_draws 8 = 123"
  "tape_of example_draws 9 = 0" "tape_of example_draws 10 = 23096567143805"
  "tape_of example_draws 11 = 0" "tape_of example_draws 12 = 9007199254740991"
  "tape_of example_draws 13 = 0" "tape_of example_draws (Suc 0) = 0"
  by (simp_all add: tape_of_def example_draws_def)

lemma Suc_Suc_0 [simp]: "Suc (Suc 0) = 2"
  by simp

lemma faker_example:
  "faker_call (faker_city example_faker) (example_state y i j k)
     = Inr (''Neustadt'', example_state y i (Suc j) k)"
  "faker_call (faker_street_name example_faker) (example_state y i j k)
     = Inr (''Lindenweg'', example_state y i (Suc j) k)"
  "faker_call (faker_building_number example_faker) (example_state y i j k)
     = Inr (str_nat (nat (1 + tape_of example_draws j mod 99)), example_state y i (Suc j) k)"
  "faker_call (faker_date_of_birth example_faker today lo hi) (example_state y i j k)
     = Inr (\<lparr>year = year today - 1 - lo - tape_of example_draws j mod (hi - lo), month = 1, day = 1,
             hour = 0, minute = 0, second = 0\<rparr>, example_state y i (Suc j) k)"
  "faker_call (faker_date_time_this_year example_faker now) (example_state y i j k)
     = Inr (now\<lparr>month := 1, day := 1, hour := 0, minute := 0, second := 0\<rparr>, example_state y i (Suc j) k)"
  by (simp_all add: faker_call_def example_faker_def example_state_def advance_def current_def)

lemma draw_example: "draw (example_state y i j k) = Inr (tape_of example_draws i, example_state y (Suc i) j k)"
  by (simp add: draw_def example_state_def current_def advance_def)

lemma now_example:
  "datetime_now (example_state y i j k)
     = Inr (\<lparr>year = y, month = 6, day = 15, hour = 12, minute = 0, second = 0\<rparr>, example_state y i j (Suc k))"
  by (simp add: datetime_now_def example_state_def example_clock_def current_def advance_def)

lemma random_random_example:
  "random_random (example_state y i j k)
     = Inr (of_int (tape_of example_draws i mod 2 ^ 53) / 2 ^ 53, example_state y (Suc i) j k)"
  by (simp add: random_random_def bindM_def draw_example returnM_def)

lemma random_randint_example:
  "a \<le> b \<Longrightarrow> random_randint a b (example_state y i j k)
     = Inr (a + tape_of example_draws i mod (b - a + 1), example_state y (Suc i) j k)"
  by (simp add: random_randint_def bindM_def draw_example returnM_def)

lemma random_choice_example:
  "seq \<noteq> [] \<Longrightarrow> random_choice seq (example_state y i j k)
     = Inr (seq ! nat (tape_of example_draws i mod int (length seq)), example_state y (Suc i) j k)"
  by (simp add: random_choice_def bindM_def draw_example returnM_def)


lemma example_generator_fields [simp]:
  "faker example_generator = example_faker"
  "first_names_male example_generator = first_names_male_table"
  "first_names_female example_generator = first_names_female_table"
  "last_names example_generator = last_names_table"
  "email_providers example_generator = email_providers_table"
  "purchase_items example_generator = purchase_items_table"
  by (simp_all add: example_generator_def GeoProfileGenerator_init_def example_lib_def)

lemma ex_first_name:
  "random_choice (first_names_male example_generator) (example_state y 1 j k)
     = Inr (''Lukas'', example_state y 2 j k)"
  by (simp add: random_choice_example first_names_male_table_def)

lemma ex_last_name:
  "random_choice (last_names example_generator) (example_state y 2 j k)
     = Inr (''M'' @ [CHR 0xFC] @ ''ller'', example_state y 3 j k)"
  by (simp add: random_choice_example last_names_table_def)

lemma lower_Lukas: "lower ''Lukas'' = ''lukas''"
  by (simp add: lower_def lower_char_def upper_letters_def lower_letters_def)

lemma lower_Mueller: "lower (''M'' @ [CHR 0xFC] @ ''ller'') = ''m'' @ [CHR 0xFC] @ ''ller''"
  by code_simp

lemma str_42: "str_int 42 = ''42''"
  by (simp add: str_int_def str_nat.simps digit_char_def)

lemma ex_email:
  "generate_email example_generator ''Lukas'' (''M'' @ [CHR 0xFC] @ ''ller'') (example_state y 3 j k)
     = Inr (''lukas.m'' @ [CHR 0xFC] @ ''ller42@gmx.de'', example_state y 6 j k)"
  by (simp add: generate_email_def bindM_def random_choice_example random_randint_example
      returnM_def email_providers_table_def lower_Lukas lower_Mueller [simplified] str_42)

lemma ex_state:
  "random_choice (states example_generator) (example_state y 6 j k)
     = Inr (''Sachsen'', example_state y 7 j k)"
  by (simp add: random_choice_example states_table_def)

lemma str_4123: "str_int 4123 = ''4123''"
  by (simp add: str_int_def str_nat.simps digit_char_def)

lemma ex_zip:
  "generate_zip_code example_generator ''Sachsen'' (example_state y 7 j k)
     = Inr (PStr ''4123'', example_state y 9 j k)"
  by (simp add: generate_zip_code_def Sachsen_entry bindM_def random_choice_example
      random_randint_example returnM_def int_of_str_bounds str_4123)

lemma ex_address:
  "generate_address example_generator ''Sachsen'' (example_state y 7 0 k)
     = Inr ((''4123 Neustadt'', ''Lindenweg 1''), example_state y 9 3 k)"
  by (simp add: generate_address_def bindM_def ex_zip faker_example returnM_def
      str_nat.simps digit_char_def)

lemma ex_birthday:
  "81 \<le> y \<Longrightarrow> y \<le> 9999 \<Longrightarrow>
   generate_birthday example_generator 18 80 (example_state y i 3 0)
     = Inr (strftime_date \<lparr>year = y - 19, month = 1, day = 1, hour = 0, minute = 0, second = 0\<rparr>,
            example_state y i 4 2)"
  by (simp add: generate_birthday_def bindM_def now_example replace_year_def returnM_def
      faker_call_now_def faker_example)

lemma ex_item:
  "random_choice (purchase_items example_generator) (example_state y 9 j k)
     = Inr (''Hose'', example_state y 10 j k)"
  by (simp add: random_choice_example purchase_items_table_def)

lemma ex_price_draw:
  "random_random (example_state y 10 j k)
     = Inr (23096567143805 / 9007199254740992, example_state y 11 j k)"
  by (simp add: random_random_example)

lemma ex_price:
  "generate_price example_generator (example_state y 10 j k) = Inr (11 / 2, example_state y 11 j k)"
proof -
  have "generate_price example_generator (example_state y 10 j k)
      = Inr (round2 (fl (float_lit 50 1 + fl (fl (float_lit 19999 2 - float_lit 50 1)
          * (23096567143805 / 9007199254740992)))), example_state y 11 j k)"
    by (simp only: generate_price_def random_uniform_def bindM_def ex_price_draw returnM_def
        sum.case prod.case)
  then show ?thesis by (simp only: example_price)
qed



lemma ex_gender:
  "random_random (example_state y 0 j k) = Inr (0, example_state y 1 j k)"
  by (simp add: random_random_example)

lemma ex_gender_cond: "(0 < float_lit 5 1) = True"
  by code_simp

lemma init_pools [simp]:
  "first_names_male (fst (GeoProfileGenerator_init lib loc seed w0)) = first_names_male_table"
  "first_names_female (fst (GeoProfileGenerator_init lib loc seed w0)) = first_names_female_table"
  "faker (fst (GeoProfileGenerator_init lib loc seed w0)) = new_Faker lib loc"
  by (simp_all add: GeoProfileGenerator_init_def)



lemma faker_call_Inr: "faker_call m w = Inr (fst (m (fkr w)), w\<lparr>fkr := snd (m (fkr w))\<rparr>)"
  by (simp add: faker_call_def split_beta)

lemma generate_address_result:
  fixes lib loc seed w0 and st :: string and w :: world
  defines "g \<equiv> fst (GeoProfileGenerator_init lib loc seed w0)"
  defines "c \<equiv> faker_city (faker g) (fkr w)"
  defines "sn \<equiv> faker_street_name (faker g) (snd c)"
  defines "bn \<equiv> faker_building_number (faker g) (snd sn)"
  shows "\<exists>n s. generate_address g st w
             = Inr ((str_nat n @ '' '' @ fst c, fst sn @ '' '' @ fst bn), w\<lparr>rnd := s, fkr := snd bn\<rparr>)
           \<and> (st = ''Sachsen'' \<longrightarrow> 1000 \<le> n \<and> n \<le> 1999 \<or> 4000 \<le> n \<and> n \<le> 4999)
           \<and> (\<forall>v. zip_code_ranges g st = Some v \<longrightarrow> within_registered v (int n))"
proof -
  from generate_zip_code_result [of lib loc seed w0 st w]
  obtain n s where z: "generate_zip_code g st w = Inr (PStr (str_nat n), w\<lparr>rnd := s\<rparr>)"
    and r: "st = ''Sachsen'' \<longrightarrow> 1000 \<le> n \<and> n \<le> 1999 \<or> 4000 \<le> n \<and> n \<le> 4999"
      "\<forall>v. zip_code_ranges g st = Some v \<longrightarrow> within_registered v (int n)"
    unfolding g_def by blast
  have "generate_address g st w
      = Inr ((str_nat n @ '' '' @ fst c, fst sn @ '' '' @ fst bn), w\<lparr>rnd := s, fkr := snd bn\<rparr>)"
    by (simp add: generate_address_def bindM_def z faker_call_Inr returnM_def c_def sn_def bn_def)
  then show ?thesis using r by blast
qed

lemma digit_not_blank: "is_digit x \<Longrightarrow> x \<noteq> CHR '' ''"
  by (auto simp: is_digit_def)


lemma split_city_zip:
  "list_all is_digit z \<Longrightarrow> split_city (z @ CHR '' '' # c) = c"
  by (induction z) (auto simp: split_city_def digit_not_blank)



text \<open>
  Claim C9. Run from the same process state for any two states, \<^verbatim>\<open>generate_address\<close> returns
  the same city and the same street, and leaves Faker's generator in the same state; only the
  ZIP code before the blank may differ. The city and street come from Faker's generator, which
  the ZIP code draw from the random module does not touch.
\<close>

theorem generate_address_city_and_street_independent_of_state:
  "\<exists>z1 z2 c s w1 w2.
     generate_address (fst (GeoProfileGenerator_init lib loc seed w0)) st1 w = Inr ((z1 @ '' '' @ c, s), w1)
     \<and> generate_address (fst (GeoProfileGenerator_init lib loc seed w0)) st2 w = Inr ((z2 @ '' '' @ c, s), w2)
     \<and> list_all is_digit z1 \<and> list_all is_digit z2
     \<and> split_city (z1 @ '' '' @ c) = c \<and> split_city (z2 @ '' '' @ c) = c
     \<and> fkr w1 = fkr w2"
proof -
  let ?g = "fst (GeoProfileGenerator_init lib loc seed w0)"
  let ?c = "faker_city (faker ?g) (fkr w)"
  let ?sn = "faker_street_name (faker ?g) (snd ?c)"
  let ?bn = "faker_building_number (faker ?g) (snd ?sn)"
  from generate_address_result [of lib loc seed w0 st1 w]
  obtain n1 s1 where a1: "generate_address ?g st1 w
      = Inr ((str_nat n1 @ '' '' @ fst ?c, fst ?sn @ '' '' @ fst ?bn), w\<lparr>rnd := s1, fkr := snd ?bn\<rparr>)"
    by blast
  from generate_address_result [of lib loc seed w0 st2 w]
  obtain n2 s2 where a2: "generate_address ?g st2 w
      = Inr ((str_nat n2 @ '' '' @ fst ?c, fst ?sn @ '' '' @ fst ?bn), w\<lparr>rnd := s2, fkr := snd ?bn\<rparr>)"
    by blast
  show ?thesis
    apply (rule exI [of _ "str_nat n1"])
    apply (rule exI [of _ "str_nat n2"])
    apply (rule exI [of _ "fst ?c"])
    apply (rule exI [of _ "fst ?sn @ '' '' @ fst ?bn"])
    apply (rule exI [of _ "w\<lparr>rnd := s1, fkr := snd ?bn\<rparr>"])
    apply (rule exI [of _ "w\<lparr>rnd := s2, fkr := snd ?bn\<rparr>"])
    using a1 a2 apply (simp add: str_nat_digits split_city_zip del: init_pools)
    done
qed

section \<open>Calls through the instance\<close>

lemma method_call_class [simp]:
  "method_call ''generate_zip_code'' m = m"
  "method_call ''generate_geo_coordinates'' m = m"
  "method_call ''generate_email'' m = m"
  "method_call ''generate_address'' m = m"
  "method_call ''generate_birthday'' m = m"
  "method_call ''generate_price'' m = m"
  by (simp_all add: method_call_def class_methods_def)

lemma method_call_module [simp]:
  "method_call ''generate_stueckzahl'' m = raise AttributeError"
  "method_call ''generate_sales_tax'' m = raise AttributeError"
  "method_call ''generate_purchase_type'' m = raise AttributeError"
  "method_call ''generate_profile'' m = raise AttributeError"
  "method_call ''generate_profiles'' m = raise AttributeError"
  by (simp_all add: method_call_def class_methods_def)

lemma bindM_fails:
  assumes "\<And>a w'. \<exists>e. f a w' = Inl e"
  shows "\<exists>e. bindM m f w = Inl e"
proof (cases "m w")
  case (Inl e)
  then show ?thesis by (simp add: bindM_def)
next
  case (Inr r)
  then show ?thesis using assms [of "fst r" "snd r"] by (cases r) (simp add: bindM_def)
qed

lemma generate_profile_stops_at_quantity:
  "generate_profile self =
     bindM (gender_and_first_name self) (\<lambda>(g, first).
     bindM (random_choice (last_names self)) (\<lambda>last.
     bindM (generate_email self first last) (\<lambda>mail.
     bindM (random_choice (states self)) (\<lambda>st.
     bindM (generate_address self st) (\<lambda>(zc, sl).
     bindM (generate_birthday self 18 80) (\<lambda>day.
     bindM (random_choice (purchase_items self)) (\<lambda>item.
     bindM (generate_price self) (\<lambda>p. raise AttributeError))))))))"
  by (simp add: generate_profile_def)

lemma generate_profile_raises: "\<exists>e. generate_profile self w = Inl e"
  unfolding generate_profile_stops_at_quantity
  by (rule bindM_fails | simp only: split_paired_all prod.case | simp add: raise_def)+

lemma generate_profile_no_profile: "generate_profile self w \<noteq> Inr (p, w')"
  using generate_profile_raises [of self w] by auto

lemma ex_gender_and_first_name:
  "gender_and_first_name example_generator (example_state y 0 j k)
     = Inr ((''male'', ''Lukas''), example_state y 2 j k)"
  by (simp only: gender_and_first_name_def bindM_def returnM_def sum.case prod.case
      ex_gender ex_gender_cond if_True HOL.simp_thms ex_first_name)

lemma ex_generate_profile:
  assumes "81 \<le> y" "y \<le> 9999"
  shows "generate_profile example_generator (example_state y 0 0 0) = Inl AttributeError"
  by (simp only: generate_profile_stops_at_quantity bindM_def returnM_def raise_def sum.case
      prod.case ex_gender_and_first_name ex_last_name ex_email ex_state ex_address
      ex_birthday [OF assms] ex_item ex_price)

lemma profiles_loop_raises: "profiles_loop self (Suc n) ps w = Inl AttributeError"
  by (simp add: raise_def)

text \<open>
  Claim C3. The claim compares the sequences of profiles that two invocations with one seed
  produce. No invocation produces a sequence: \<^verbatim>\<open>main\<close> calls \<^verbatim>\<open>generator.generate_profiles\<close>, which
  names no method of the class, so that the invocation raises \<^verbatim>\<open>AttributeError\<close>, for every
  library, locale, seed, count and process state. Called as a function of the module on an
  instance, \<^verbatim>\<open>generate_profiles\<close> raises the same error for every count of at least 1, at
  \<^verbatim>\<open>self.generate_profile()\<close>; and \<^verbatim>\<open>generate_profile\<close>, called in the same way, raises for every
  instance and process state and returns no profile: on the example draws it gets as far as
  \<^verbatim>\<open>self.generate_stueckzahl()\<close> and raises \<^verbatim>\<open>AttributeError\<close> there.
\<close>

theorem batch_generation_raises_AttributeError:
  "invocation lib loc seed count w = Inl AttributeError
   \<and> generate_profiles self (1 + int n) w = Inl AttributeError
   \<and> (\<exists>e. generate_profile self w = Inl e)
   \<and> generate_profile example_generator (example_state 2025 0 0 0) = Inl AttributeError"
proof -
  have "invocation lib loc seed count w = Inl AttributeError"
    by (simp add: invocation_def raise_def split_beta)
  moreover have "nat (1 + int n) = Suc n" by simp
  then have "generate_profiles self (1 + int n) w = Inl AttributeError"
    by (simp only: generate_profiles_def profiles_loop_raises)
  moreover have "generate_profile example_generator (example_state 2025 0 0 0) = Inl AttributeError"
    by (rule ex_generate_profile) simp_all
  ultimately show ?thesis using generate_profile_raises by blast
qed

section \<open>The steps of the profile composer\<close>







section \<open>Rounding to two decimal places\<close>




















end
